theory Spec2Isabelle
  imports Main "HOL-Library.Word"
begin

unbundle bit_operations_syntax

section \<open>Address and socket utilities (namespace net_utils)\<close>

text \<open>
  The native address structures. \<open>sockaddr_in\<close> carries the address family, the port in
  network byte order and the 32-bit IPv4 address; \<open>sockaddr_in6\<close> carries the 128-bit
  address together with the flow information and the scope identifier.
\<close>

record sockaddr_in =
  sin_family :: "16 word"
  sin_port :: "16 word"
  sin_addr :: "32 word"

record sockaddr_in6 =
  sin6_family :: "16 word"
  sin6_port :: "16 word"
  sin6_flowinfo :: "32 word"
  sin6_addr :: "128 word"
  sin6_scope_id :: "32 word"

definition AF_INET :: "16 word" where
  "AF_INET = 2"

definition AF_INET6 :: "16 word" where
  "AF_INET6 = 10"

text \<open>The value-initialised structure \<open>sockaddr_in{}\<close>.\<close>

definition sockaddr_in_zero :: sockaddr_in where
  "sockaddr_in_zero = \<lparr>sin_family = 0, sin_port = 0, sin_addr = 0\<rparr>"

text \<open>
  \<open>htons\<close> on a little-endian host swaps the two bytes of a 16-bit value. The \<open>int\<close>
  port of the callers is converted to \<open>uint16_t\<close> first, which keeps its low 16 bits.
\<close>

definition htons :: "16 word \<Rightarrow> 16 word" where
  "htons x = (push_bit 8 x) OR (drop_bit 8 x)"

text \<open>
  \<open>inet_pton\<close> is a library call. It is a parameter of the model: \<open>pton ip_str\<close> is
  \<open>Some a\<close> when the call returns 1 and stores \<open>a\<close> in the destination, and \<open>None\<close> when
  it returns anything else and leaves the destination as it was.

  \<open>set_sockaddr\<close> takes the structure behind the pointer and returns the result of the
  call together with the structure as the call leaves it. The family is stored before
  the text is parsed.
\<close>

definition set_sockaddr :: "(string \<Rightarrow> 32 word option) \<Rightarrow> sockaddr_in \<Rightarrow> string \<Rightarrow> int
    \<Rightarrow> bool \<times> sockaddr_in" where
  "set_sockaddr pton addr ip_str port =
     (let addr1 = addr\<lparr>sin_family := AF_INET\<rparr> in
      case pton ip_str of
        None \<Rightarrow> (False, addr1)
      | Some a \<Rightarrow> (True, addr1\<lparr>sin_addr := a, sin_port := htons (word_of_int port)\<rparr>))"

definition set_sockaddr6 :: "(string \<Rightarrow> 128 word option) \<Rightarrow> sockaddr_in6 \<Rightarrow> string \<Rightarrow> int
    \<Rightarrow> bool \<times> sockaddr_in6" where
  "set_sockaddr6 pton6 addr ip_str port =
     (let addr1 = addr\<lparr>sin6_family := AF_INET6\<rparr> in
      case pton6 ip_str of
        None \<Rightarrow> (False, addr1)
      | Some a \<Rightarrow> (True, addr1\<lparr>sin6_addr := a, sin6_port := htons (word_of_int port)\<rparr>))"

text \<open>
  \<open>bind_addr(int, const sockaddr_in&)\<close>. The system call \<open>bind\<close> is a parameter:
  \<open>sys_bind fd addr\<close> is the value it returns.
\<close>

definition bind_addr_in :: "(int \<Rightarrow> sockaddr_in \<Rightarrow> int) \<Rightarrow> int \<Rightarrow> sockaddr_in \<Rightarrow> bool" where
  "bind_addr_in sys_bind fd addr_in =
     (if fd < 0 then False
      else if sys_bind fd addr_in \<noteq> 0 then False
      else True)"

text \<open>
  \<open>bind_addr(int, const char*, int, sockaddr_in*)\<close>. The out-parameter \<open>addr_result\<close> is
  \<open>None\<close> for a null pointer and \<open>Some\<close> of the pointee otherwise; the function returns
  its result and the pointee as it leaves it. The result of the inner \<open>bind_addr\<close> call
  is computed and dropped, as in the source.
\<close>

definition bind_addr :: "(string \<Rightarrow> 32 word option) \<Rightarrow> (int \<Rightarrow> sockaddr_in \<Rightarrow> int) \<Rightarrow> int
    \<Rightarrow> string \<Rightarrow> int \<Rightarrow> sockaddr_in option \<Rightarrow> bool \<times> sockaddr_in option" where
  "bind_addr pton sys_bind fd bind_addr_str port addr_result =
     (case set_sockaddr pton sockaddr_in_zero bind_addr_str port of
        (False, addr_tmp) \<Rightarrow> (False, addr_result)
      | (True, addr_tmp) \<Rightarrow>
          (let bound = bind_addr_in sys_bind fd addr_tmp in
           (True, case addr_result of None \<Rightarrow> None | Some old \<Rightarrow> Some addr_tmp)))"

text \<open>
  \<open>open_socket\<close>. Every system call of the function is made at most once, so the
  environment is the record of the values they return. The function returns the
  descriptor (or -1) and the messages it logs or prints, in order.
\<close>

datatype protocol_type = NONE | SCTP | TCP | UDP

record sockopt_env =
  socket_ret :: int
  set_events_ret :: int
  get_rtoinfo_ret :: int
  set_rtoinfo_ret :: int
  get_initmsg_ret :: int
  set_initmsg_ret :: int

datatype open_log =
    Failed_to_open_socket
  | Failed_to_subscribe
  | Error_getting_RTO_INFO
  | Error_setting_RTO_INFO
  | Error_getting_sockopts
  | Error_setting_SCTP_INITMSG

definition open_socket :: "sockopt_env \<Rightarrow> protocol_type \<Rightarrow> int \<times> open_log list" where
  "open_socket env protocol =
     (let fd = socket_ret env in
      if fd = -1 then (-1, [Failed_to_open_socket])
      else if protocol = SCTP then
        (let l1 = (if set_events_ret env \<noteq> 0 then [Failed_to_subscribe] else []) in
         if get_rtoinfo_ret env < 0 then (-1, l1 @ [Error_getting_RTO_INFO])
         else if set_rtoinfo_ret env < 0 then (-1, l1 @ [Error_setting_RTO_INFO])
         else
           (let l2 = l1 @ (if get_initmsg_ret env < 0 then [Error_getting_sockopts] else []) in
            if set_initmsg_ret env < 0 then (-1, l2 @ [Error_setting_SCTP_INITMSG])
            else (fd, l2)))
      else (fd, []))"

text \<open>
  \<open>tcp_send\<close>. \<open>size_t\<close> and \<open>ssize_t\<close> are 64-bit words, compared as signed where the
  source compares \<open>ssize_t\<close> values; the \<open>int\<close> result keeps the low 32 bits. The system
  call is a parameter: \<open>send k len\<close> is the value returned by the call number \<open>k\<close> when
  asked to transmit \<open>len\<close> bytes. The loop returns \<open>Inl i\<close> at \<open>return i\<close> and
  \<open>Inr nbytes_remaining\<close> when it ends.
\<close>

function tcp_send_loop :: "(nat \<Rightarrow> 64 word \<Rightarrow> 64 word) \<Rightarrow> nat \<Rightarrow> 64 word
    \<Rightarrow> 64 word + 64 word" where
  "tcp_send_loop send k nbytes_remaining =
     (if 0 <s nbytes_remaining then
        (let i = send k nbytes_remaining in
         if i <s 1 then Inl i
         else tcp_send_loop send (Suc k) (nbytes_remaining - i))
      else Inr nbytes_remaining)"
  by pat_completeness auto

termination tcp_send_loop
proof (relation "measure (\<lambda>(send, k, r). nat (sint r))")
  show "wf (measure (\<lambda>(send :: nat \<Rightarrow> 64 word \<Rightarrow> 64 word, k :: nat, r :: 64 word). nat (sint r)))"
    by simp
next
  fix send :: "nat \<Rightarrow> 64 word \<Rightarrow> 64 word" and k :: nat and r i :: "64 word"
  assume pos: "0 <s r" and i: "i = send k r" and prog: "\<not> i <s 1"
  have a: "0 < sint r" using pos by (simp add: word_sless_alt)
  have b: "1 \<le> sint i" using prog by (simp add: word_sless_alt)
  have ra: "sint r < 2 ^ 63" using sint_lt [of r] by simp
  have rb: "sint i < 2 ^ 63" using sint_lt [of i] by simp
  have "sint (r - i) = signed_take_bit 63 (sint r - sint i)"
    by (simp add: sint_word_ariths)
  also have "\<dots> = sint r - sint i"
    by (rule signed_take_bit_int_eq_self) (use a b ra rb in simp_all)
  finally have "sint (r - i) < sint r" using b by simp
  then show "((send, Suc k, r - i), (send, k, r)) \<in> measure (\<lambda>(send, k, r). nat (sint r))"
    using a by simp
qed

definition tcp_send :: "(nat \<Rightarrow> 64 word \<Rightarrow> 64 word) \<Rightarrow> 64 word \<Rightarrow> 32 word" where
  "tcp_send send nbytes =
     (case tcp_send_loop send 0 nbytes of
        Inl i \<Rightarrow> ucast i
      | Inr nbytes_remaining \<Rightarrow> ucast (nbytes - nbytes_remaining))"

text \<open>
  The number of bytes still to transmit after \<open>j\<close> further calls of \<open>send\<close>, starting at
  call number \<open>k\<close> with \<open>r\<close> bytes remaining. It is used to state what the loop computes,
  not to compute it.
\<close>

fun remaining_after :: "(nat \<Rightarrow> 64 word \<Rightarrow> 64 word) \<Rightarrow> nat \<Rightarrow> 64 word \<Rightarrow> nat \<Rightarrow> 64 word" where
  "remaining_after send k r 0 = r"
| "remaining_after send k r (Suc j) = remaining_after send (Suc k) (r - send k r) j"

section \<open>Socket handle (class socket_handler_t)\<close>

text \<open>
  The handle owns a descriptor and its address. \<open>closed\<close> is the list of descriptors
  handed to the system call \<open>::close\<close> so far, in order.
\<close>

record socket_handler_t =
  sockfd :: int
  addr :: sockaddr_in

text \<open>
  The move constructor returns the new object and the moved-from object.
\<close>

definition socket_handler_move :: "socket_handler_t \<Rightarrow> socket_handler_t \<times> socket_handler_t" where
  "socket_handler_move other =
     (\<lparr>sockfd = sockfd other, addr = addr other\<rparr>,
      other\<lparr>sockfd := 0, addr := sockaddr_in_zero\<rparr>)"

text \<open>
  Move assignment compares the addresses of the two objects, so the objects live in a
  store, indexed by their address.
\<close>

definition socket_handler_move_assign :: "(nat \<Rightarrow> socket_handler_t) \<Rightarrow> nat \<Rightarrow> nat
    \<Rightarrow> (nat \<Rightarrow> socket_handler_t)" where
  "socket_handler_move_assign store this other =
     (if this = other then store
      else
        (let s1 = store(this := (store this)\<lparr>addr := addr (store other)\<rparr>);
             s2 = s1(this := (s1 this)\<lparr>sockfd := sockfd (s1 other)\<rparr>);
             s3 = s2(other := (s2 other)\<lparr>addr := sockaddr_in_zero\<rparr>)
         in s3(other := (s3 other)\<lparr>sockfd := 0\<rparr>)))"

definition socket_handler_close :: "socket_handler_t \<times> int list \<Rightarrow> socket_handler_t \<times> int list" where
  "socket_handler_close hc =
     (case hc of (h, closed) \<Rightarrow>
        if sockfd h \<ge> 0 then (h\<lparr>sockfd := -1\<rparr>, closed @ [sockfd h])
        else (h, closed))"

definition socket_handler_reset :: "socket_handler_t \<times> int list \<Rightarrow> socket_handler_t \<times> int list" where
  "socket_handler_reset hc =
     (case socket_handler_close hc of (h, closed) \<Rightarrow> (h\<lparr>addr := sockaddr_in_zero\<rparr>, closed))"

section \<open>Receive tasks\<close>

text \<open>
  The buffer class is declared outside the translated sources: \<open>msg\<close> is the memory the
  received bytes are stored in and \<open>N_bytes\<close> the number of valid bytes. The allocator
  \<open>make_byte_buffer\<close> is a parameter (\<open>None\<close> is the null pointer), and so are
  \<open>get_tailroom\<close> and the system call: \<open>recvfrom fd len\<close> gives the value the call
  returns, \<open>errno\<close> after it, the bytes it stored and the source address it stored.
  The task returns its result, the calls it made to the handler, and what it logged.
\<close>

record byte_buffer_t =
  msg :: "8 word list"
  N_bytes :: "32 word"

record recv_result =
  n_recv :: int
  recv_errno :: int
  recv_bytes :: "8 word list"
  recv_from :: sockaddr_in

definition EAGAIN :: int where
  "EAGAIN = 11"

datatype task_log = Unable_to_allocate_byte_buffer | Error_reading_from_socket | Socket_timeout_reached

definition recvfrom_pdu_task :: "byte_buffer_t option \<Rightarrow> (byte_buffer_t \<Rightarrow> nat)
    \<Rightarrow> (int \<Rightarrow> nat \<Rightarrow> recv_result) \<Rightarrow> int
    \<Rightarrow> bool \<times> (byte_buffer_t \<times> sockaddr_in) list \<times> task_log list" where
  "recvfrom_pdu_task make_byte_buffer get_tailroom recvfrom fd =
     (case make_byte_buffer of
        None \<Rightarrow> (True, [], [Unable_to_allocate_byte_buffer])
      | Some pdu \<Rightarrow>
          (let r = recvfrom fd (get_tailroom pdu) in
           if n_recv r = -1 \<and> recv_errno r \<noteq> EAGAIN then (True, [], [Error_reading_from_socket])
           else if n_recv r = -1 \<and> recv_errno r = EAGAIN then (True, [], [Socket_timeout_reached])
           else
             (True,
              [(pdu\<lparr>msg := recv_bytes r @ drop (length (recv_bytes r)) (msg pdu),
                    N_bytes := word_of_int (n_recv r)\<rparr>, recv_from r)],
              [])))"

section \<open>Multiplexed receive handler (class rx_multisocket_handler)\<close>

text \<open>
  Modelled from the spec: the control message \<open>ctrl_cmd_t\<close> is declared in a header
  outside the translated sources. It is a fixed-size record of a command and a
  descriptor; the source names the commands \<open>EXIT\<close>, \<open>NEW_FD\<close> and \<open>RM_FD\<close>, and
  \<open>OTHER_CMD\<close> stands for any other value of the enumeration's underlying type, which
  the \<open>default\<close> branch of the reactor handles. \<open>sizeof_ctrl_cmd_t\<close> is \<open>sizeof(msg)\<close>
  for two 4-byte members. In memory the record is the command, numbered from 0 in the
  order above, followed by the descriptor, each as a 32-bit value with its low byte first.
\<close>

datatype cmd_id_t = EXIT | NEW_FD | RM_FD | OTHER_CMD int

record ctrl_cmd_t =
  cmd :: cmd_id_t
  new_fd :: int

definition sizeof_ctrl_cmd_t :: int where
  "sizeof_ctrl_cmd_t = 8"

definition cmd_code :: "cmd_id_t \<Rightarrow> 32 word" where
  "cmd_code c = (case c of EXIT \<Rightarrow> 0 | NEW_FD \<Rightarrow> 1 | RM_FD \<Rightarrow> 2 | OTHER_CMD v \<Rightarrow> word_of_int v)"

definition cmd_of_code :: "32 word \<Rightarrow> cmd_id_t" where
  "cmd_of_code w =
     (if w = 0 then EXIT else if w = 1 then NEW_FD else if w = 2 then RM_FD
      else OTHER_CMD (sint w))"

definition le_bytes :: "32 word \<Rightarrow> 8 word list" where
  "le_bytes w = [ucast w, ucast (drop_bit 8 w), ucast (drop_bit 16 w), ucast (drop_bit 24 w)]"

fun le_word :: "8 word list \<Rightarrow> 32 word" where
  "le_word (b0 # b1 # b2 # b3 # rest) =
     ucast b0 OR push_bit 8 (ucast b1) OR push_bit 16 (ucast b2) OR push_bit 24 (ucast b3)"
| "le_word bs = 0"

definition bytes_of_ctrl :: "ctrl_cmd_t \<Rightarrow> 8 word list" where
  "bytes_of_ctrl m = le_bytes (cmd_code (cmd m)) @ le_bytes (word_of_int (new_fd m))"

definition ctrl_of_bytes :: "8 word list \<Rightarrow> ctrl_cmd_t" where
  "ctrl_of_bytes bs = \<lparr>cmd = cmd_of_code (le_word bs), new_fd = sint (le_word (drop 4 bs))\<rparr>"

text \<open>
  What a \<open>read\<close> of \<open>sizeof(msg)\<close> bytes into the message buffer does: it fails, or it
  stores the bytes it transfers (at most \<open>sizeof(msg)\<close>, none at the end of the file) at
  the start of the buffer. \<open>nrd_of\<close> is the value the call returns, and \<open>buffer_after\<close>
  the message buffer after the call, given the buffer \<open>msg0\<close> before it: the bytes that
  are not transferred keep their value.
\<close>

datatype read_outcome = Read_error | Read_bytes "8 word list"

definition nrd_of :: "read_outcome \<Rightarrow> int" where
  "nrd_of rd = (case rd of Read_error \<Rightarrow> -1
     | Read_bytes bs \<Rightarrow> int (length (take (nat sizeof_ctrl_cmd_t) bs)))"

definition buffer_after :: "ctrl_cmd_t \<Rightarrow> read_outcome \<Rightarrow> ctrl_cmd_t" where
  "buffer_after msg0 rd = (case rd of Read_error \<Rightarrow> msg0
     | Read_bytes bs \<Rightarrow>
         (let got = take (nat sizeof_ctrl_cmd_t) bs
          in ctrl_of_bytes (got @ drop (length got) (bytes_of_ctrl msg0))))"

text \<open>
  Modelled from the spec: the value of a \<open>ctrl_cmd_t\<close> that is declared without an
  initialiser comes from the header outside the translated sources; the descriptor of
  the record is optional, and -1 is the absent descriptor.
\<close>

definition ctrl_cmd_init :: ctrl_cmd_t where
  "ctrl_cmd_init = \<lparr>cmd = EXIT, new_fd = -1\<rparr>"

text \<open>The messages of the handler's logger, one constructor for each call site.\<close>

datatype rx_log =
    Err_socket_must_be_open
  | Err_fd_already_exists int
  | Err_writing_to_control_pipe
  | Dbg_registered int
  | Err_fd_to_remove_does_not_exist int
  | Err_fd_to_be_removed_not_valid
  | Dbg_removed int
  | Err_select
  | Dbg_no_data_from_select
  | Info_closed_by_peer int
  | Err_unable_to_read_control_message
  | Err_added_fd_not_valid
  | Err_ctrl_command_not_valid

text \<open>
  An \<open>fd_set\<close> has one bit for each descriptor from 0 to \<open>FD_SETSIZE - 1\<close> and is held as
  the set of the descriptors whose bit is set. \<open>FD_SET\<close>, \<open>FD_CLR\<close> and \<open>FD_ISSET\<close> on a
  descriptor outside this range access memory outside the \<open>fd_set\<close>; the source does not
  guard against it, and the model returns it as the fault \<open>Fd_set_out_of_bounds\<close>.
  \<open>Erase_of_end_iterator\<close> is the erasure of \<open>end()\<close> of a \<open>std::map\<close>, which has no
  defined behaviour, and \<open>Read_of_empty_pipe\<close> a read of the control pipe that finds it
  empty.
\<close>

datatype fault = Erase_of_end_iterator | Fd_set_out_of_bounds | Read_of_empty_pipe

definition FD_SETSIZE :: int where
  "FD_SETSIZE = 1024"

definition FD_SET :: "int \<Rightarrow> int set \<Rightarrow> fault + int set" where
  "FD_SET fd fds =
     (if 0 \<le> fd \<and> fd < FD_SETSIZE then Inr (insert fd fds) else Inl Fd_set_out_of_bounds)"

definition FD_CLR :: "int \<Rightarrow> int set \<Rightarrow> fault + int set" where
  "FD_CLR fd fds =
     (if 0 \<le> fd \<and> fd < FD_SETSIZE then Inr (fds - {fd}) else Inl Fd_set_out_of_bounds)"

definition FD_ISSET :: "int \<Rightarrow> int set \<Rightarrow> fault + bool" where
  "FD_ISSET fd fds =
     (if 0 \<le> fd \<and> fd < FD_SETSIZE then Inr (fd \<in> fds) else Inl Fd_set_out_of_bounds)"

text \<open>
  The state of the handler. \<open>active_sockets\<close> is the \<open>std::map\<close> from descriptor to
  task, held as the list of its entries in key order, which is the order the source
  iterates in and the order \<open>rbegin\<close> relies on. \<open>pipefd0\<close> is \<open>pipefd[0]\<close>; \<open>pipe\<close> holds
  the bytes written to \<open>pipefd[1]\<close> and not yet read. \<open>total_fd_set\<close> and \<open>max_fd\<close> are
  the locals of \<open>run_thread\<close> that \<open>remove_socket_unprotected\<close> receives by pointer.
\<close>

record 't rx_state =
  active_sockets :: "(int \<times> 't) list"
  pipefd0 :: int
  pipe :: "8 word list"
  running :: bool
  total_fd_set :: "int set"
  max_fd :: int
  logger :: "rx_log list"

text \<open>\<open>std::map::insert\<close> keeps the entries in key order and keeps an existing entry.\<close>

fun map_insert :: "int \<times> 't \<Rightarrow> (int \<times> 't) list \<Rightarrow> (int \<times> 't) list" where
  "map_insert (k, v) [] = [(k, v)]"
| "map_insert (k, v) ((k', v') # xs) =
     (if k < k' then (k, v) # (k', v') # xs
      else if k = k' then (k', v') # xs
      else (k', v') # map_insert (k, v) xs)"

definition map_erase :: "int \<Rightarrow> (int \<times> 't) list \<Rightarrow> (int \<times> 't) list" where
  "map_erase k xs = filter (\<lambda>p. fst p \<noteq> k) xs"

definition log_rx :: "rx_log \<Rightarrow> 't rx_state \<Rightarrow> 't rx_state" where
  "log_rx m s = s\<lparr>logger := logger s @ [m]\<rparr>"

text \<open>
  \<open>write_ret\<close> is the value the \<open>write\<close> of one record on \<open>pipefd[1]\<close> returns: that many
  bytes of the record reach the pipe.
\<close>

definition write_ctrl :: "ctrl_cmd_t \<Rightarrow> int \<Rightarrow> 't rx_state \<Rightarrow> 't rx_state" where
  "write_ctrl m write_ret s = s\<lparr>pipe := pipe s @ take (nat write_ret) (bytes_of_ctrl m)\<rparr>"

text \<open>
  The registration calls return a \<open>bool\<close>, \<open>false\<close> on every failing branch; the
  branches differ in the message they log. The model returns the \<open>bool\<close> and the state
  the call leaves, which includes the log.
\<close>

definition add_socket_handler :: "int \<Rightarrow> 't \<Rightarrow> int \<Rightarrow> 't rx_state \<Rightarrow> bool \<times> 't rx_state" where
  "add_socket_handler fd handler write_ret s =
     (if fd < 0 then (False, log_rx Err_socket_must_be_open s)
      else if map_of (active_sockets s) fd \<noteq> None then
        (False, log_rx (Err_fd_already_exists fd) s)
      else
        (let s1 = s\<lparr>active_sockets := map_insert (fd, handler) (active_sockets s)\<rparr>;
             s2 = write_ctrl \<lparr>cmd = NEW_FD, new_fd = fd\<rparr> write_ret s1
         in if write_ret \<noteq> sizeof_ctrl_cmd_t then
              (False, log_rx Err_writing_to_control_pipe s2)
            else (True, log_rx (Dbg_registered fd) s2)))"

definition remove_socket :: "int \<Rightarrow> int \<Rightarrow> 't rx_state \<Rightarrow> bool \<times> 't rx_state" where
  "remove_socket fd write_ret s =
     (if map_of (active_sockets s) fd = None then
        (False, log_rx (Err_fd_to_remove_does_not_exist fd) s)
      else
        (let s1 = write_ctrl \<lparr>cmd = RM_FD, new_fd = fd\<rparr> write_ret s
         in if write_ret \<noteq> sizeof_ctrl_cmd_t then
              (False, log_rx Err_writing_to_control_pipe s1)
            else (True, s1)))"

text \<open>
  \<open>remove_socket_unprotected\<close>. The source erases the iterator that \<open>find\<close> returns
  without comparing it with \<open>end()\<close>.
\<close>

definition remove_socket_unprotected :: "int \<Rightarrow> 't rx_state \<Rightarrow> fault + 't rx_state" where
  "remove_socket_unprotected fd s =
     (if fd < 0 then Inr (log_rx Err_fd_to_be_removed_not_valid s)
      else
        (case map_of (active_sockets s) fd of
           None \<Rightarrow> Inl Erase_of_end_iterator
         | Some task \<Rightarrow>
             (let a = map_erase fd (active_sockets s) in
              case FD_CLR fd (total_fd_set s) of
                Inl e \<Rightarrow> Inl e
              | Inr fds \<Rightarrow>
                  Inr (log_rx (Dbg_removed fd)
                    (s\<lparr>active_sockets := a,
                       total_fd_set := fds,
                       max_fd := (if a = [] then pipefd0 s
                                  else max (pipefd0 s) (fst (last a)))\<rparr>)))))"

text \<open>The first statements of \<open>run_thread\<close>, before the loop.\<close>

definition run_thread_init :: "'t rx_state \<Rightarrow> fault + 't rx_state" where
  "run_thread_init s =
     (case FD_SET (pipefd0 s) {} of
        Inl e \<Rightarrow> Inl e
      | Inr fds \<Rightarrow> Inr (s\<lparr>running := True, total_fd_set := fds, max_fd := max (pipefd0 s) 0\<rparr>))"

text \<open>
  The loop over the active sockets. \<open>invoke task fd\<close> is the value the task returns when
  called on \<open>fd\<close>. Erasing the current entry leaves the entries after it in place, so the
  loop runs over the entries as they were when it started. For a negative descriptor
  \<open>remove_socket_unprotected\<close> returns \<open>end()\<close>, which ends the loop.
\<close>

fun dispatch :: "('t \<Rightarrow> int \<Rightarrow> bool) \<Rightarrow> int set \<Rightarrow> (int \<times> 't) list \<Rightarrow> 't rx_state
    \<Rightarrow> fault + 't rx_state" where
  "dispatch invoke read_fd_set [] s = Inr s"
| "dispatch invoke read_fd_set ((fd, callback) # rest) s =
     (case FD_ISSET fd read_fd_set of
        Inl e \<Rightarrow> Inl e
      | Inr ready \<Rightarrow>
          if \<not> ready then dispatch invoke read_fd_set rest s
          else if \<not> invoke callback fd then
            (case remove_socket_unprotected fd (log_rx (Info_closed_by_peer fd) s) of
               Inl e \<Rightarrow> Inl e
             | Inr s' \<Rightarrow> if fd < 0 then Inr s' else dispatch invoke read_fd_set rest s')
          else dispatch invoke read_fd_set rest s)"

text \<open>The \<open>switch\<close> on the command of the message in the buffer.\<close>

definition process_ctrl_msg :: "ctrl_cmd_t \<Rightarrow> 't rx_state \<Rightarrow> fault + 't rx_state" where
  "process_ctrl_msg m s =
     (case cmd m of
        EXIT \<Rightarrow> Inr (s\<lparr>running := False\<rparr>)
      | NEW_FD \<Rightarrow>
          (if new_fd m \<ge> 0 then
             (case FD_SET (new_fd m) (total_fd_set s) of
                Inl e \<Rightarrow> Inl e
              | Inr fds \<Rightarrow> Inr (s\<lparr>total_fd_set := fds, max_fd := max (max_fd s) (new_fd m)\<rparr>))
           else Inr (log_rx Err_added_fd_not_valid s))
      | RM_FD \<Rightarrow>
          (case remove_socket_unprotected (new_fd m) s of
             Inl e \<Rightarrow> Inl e
           | Inr s' \<Rightarrow> Inr (log_rx (Dbg_removed (new_fd m)) s'))
      | OTHER_CMD c \<Rightarrow> Inr (log_rx Err_ctrl_command_not_valid s))"

text \<open>
  The handling of the control pipe: the message buffer holds \<open>msg0\<close>, the \<open>read\<close> does
  \<open>rd\<close>, and the value it returns is compared with 0 only.
\<close>

definition handle_ctrl :: "ctrl_cmd_t \<Rightarrow> read_outcome \<Rightarrow> 't rx_state \<Rightarrow> fault + 't rx_state" where
  "handle_ctrl msg0 rd s =
     (let nrd = nrd_of rd; m = buffer_after msg0 rd in
      if nrd \<le> 0 then Inr (log_rx Err_unable_to_read_control_message s)
      else process_ctrl_msg m s)"

text \<open>
  One pass through the body of the loop of \<open>run_thread\<close>: \<open>n\<close> and \<open>read_fd_set\<close> are what
  \<open>select\<close> returned and stored, and \<open>rd\<close> is what the \<open>read\<close> of the control pipe does if
  the pass comes to it.
\<close>

definition run_iteration :: "('t \<Rightarrow> int \<Rightarrow> bool) \<Rightarrow> int \<Rightarrow> int set \<Rightarrow> ctrl_cmd_t \<Rightarrow> read_outcome
    \<Rightarrow> 't rx_state \<Rightarrow> fault + 't rx_state" where
  "run_iteration invoke n read_fd_set msg0 rd s =
     (if n = -1 then Inr (log_rx Err_select s)
      else if n = 0 then Inr (log_rx Dbg_no_data_from_select s)
      else
        (case dispatch invoke read_fd_set (active_sockets s) s of
           Inl e \<Rightarrow> Inl e
         | Inr s1 \<Rightarrow>
             (case FD_ISSET (pipefd0 s) read_fd_set of
                Inl e \<Rightarrow> Inl e
              | Inr ready \<Rightarrow> if ready then handle_ctrl msg0 rd s1 else Inr s1)))"

text \<open>
  The handler together with its callers. The mutex makes a registration call and the
  locked part of a loop pass atomic, so a run of the system is a sequence of such
  actions. A loop pass that comes to the \<open>read\<close> of the control pipe takes the first
  \<open>sizeof(msg)\<close> bytes of the pipe, or as many as there are.
\<close>

datatype 't action =
    Register int 't int
  | Unregister int int
  | Loop_pass int "int set"

fun system_step :: "('t \<Rightarrow> int \<Rightarrow> bool) \<Rightarrow> 't action \<Rightarrow> 't rx_state \<Rightarrow> fault + 't rx_state" where
  "system_step invoke (Register fd handler write_ret) s =
     Inr (snd (add_socket_handler fd handler write_ret s))"
| "system_step invoke (Unregister fd write_ret) s =
     Inr (snd (remove_socket fd write_ret s))"
| "system_step invoke (Loop_pass n read_fd_set) s =
     (let reads = (n \<noteq> -1 \<and> n \<noteq> 0 \<and> pipefd0 s \<in> read_fd_set) in
      if reads \<and> pipe s = [] then Inl Read_of_empty_pipe
      else
        (case run_iteration invoke n read_fd_set ctrl_cmd_init (Read_bytes (pipe s)) s of
           Inl e \<Rightarrow> Inl e
         | Inr s' \<Rightarrow>
             Inr (if reads then s'\<lparr>pipe := drop (nat sizeof_ctrl_cmd_t) (pipe s')\<rparr> else s')))"

fun system_run :: "('t \<Rightarrow> int \<Rightarrow> bool) \<Rightarrow> 't action list \<Rightarrow> 't rx_state \<Rightarrow> fault + 't rx_state" where
  "system_run invoke [] s = Inr s"
| "system_run invoke (a # as) s =
     (case system_step invoke a s of
        Inl e \<Rightarrow> Inl e
      | Inr s' \<Rightarrow> system_run invoke as s')"


text \<open>
  The entries of the map are in strictly increasing key order and no key is negative.
  Every state the system reaches from an empty map is of this kind.
\<close>

definition keys_ordered :: "'t rx_state \<Rightarrow> bool" where
  "keys_ordered s \<longleftrightarrow> sorted_wrt (<) (map fst (active_sockets s))
     \<and> (\<forall>p \<in> set (active_sockets s). 0 \<le> fst p)"


section \<open>Concrete inputs\<close>

text \<open>
  An \<open>inet_pton\<close> that accepts the loopback addresses only, environments of system
  calls, and a handler with the control pipe on descriptor 3.
\<close>

definition pton_ex :: "string \<Rightarrow> 32 word option" where
  "pton_ex = (\<lambda>s. if s = ''127.0.0.1'' then Some 0x0100007F else None)"

definition pton6_ex :: "string \<Rightarrow> 128 word option" where
  "pton6_ex = (\<lambda>s. if s = ''::1'' then Some (push_bit 120 1) else None)"

definition sockaddr_in6_zero :: sockaddr_in6 where
  "sockaddr_in6_zero =
     \<lparr>sin6_family = 0, sin6_port = 0, sin6_flowinfo = 0, sin6_addr = 0, sin6_scope_id = 0\<rparr>"

definition env_ex :: sockopt_env where
  "env_ex = \<lparr>socket_ret = 3, set_events_ret = 0, get_rtoinfo_ret = -1, set_rtoinfo_ret = 0,
     get_initmsg_ret = 0, set_initmsg_ret = 0\<rparr>"

definition send_ex :: "nat \<Rightarrow> 64 word \<Rightarrow> 64 word" where
  "send_ex = (\<lambda>k len. if k = 0 then 4 else -1)"

definition pdu_ex :: byte_buffer_t where
  "pdu_ex = \<lparr>msg = [0, 0, 0, 0, 0, 0, 0, 0], N_bytes = 0\<rparr>"

definition tailroom_ex :: "byte_buffer_t \<Rightarrow> nat" where
  "tailroom_ex = (\<lambda>b. length (msg b) - unat (N_bytes b))"

definition recv_ex :: "int \<Rightarrow> nat \<Rightarrow> recv_result" where
  "recv_ex = (\<lambda>fd len. \<lparr>n_recv = 3, recv_errno = 0, recv_bytes = [1, 2, 3],
     recv_from = \<lparr>sin_family = AF_INET, sin_port = htons 2152, sin_addr = 0x0100007F\<rparr>\<rparr>)"

definition recv_block_ex :: "int \<Rightarrow> nat \<Rightarrow> recv_result" where
  "recv_block_ex = (\<lambda>fd len. \<lparr>n_recv = -1, recv_errno = EAGAIN, recv_bytes = [],
     recv_from = sockaddr_in_zero\<rparr>)"

definition rx_idle :: "unit rx_state" where
  "rx_idle = \<lparr>active_sockets = [], pipefd0 = 3, pipe = [], running = False,
     total_fd_set = {}, max_fd = 0, logger = []\<rparr>"

definition rx_start :: "unit rx_state" where
  "rx_start = \<lparr>active_sockets = [], pipefd0 = 3, pipe = [], running = True,
     total_fd_set = {3}, max_fd = 3, logger = []\<rparr>"

definition rx_two :: "unit rx_state" where
  "rx_two = \<lparr>active_sockets = [(4, ()), (9, ())], pipefd0 = 3, pipe = [], running = True,
     total_fd_set = {3, 4, 9}, max_fd = 9, logger = []\<rparr>"

definition always_valid :: "unit \<Rightarrow> int \<Rightarrow> bool" where
  "always_valid = (\<lambda>task fd. True)"

section \<open>Properties of the utilities\<close>

text \<open>
  C7, as the source has it: \<open>set_sockaddr\<close> stores the address family before it parses
  the text. When the text does not parse it returns false and the structure differs from
  the one passed in at most in its family, which is \<open>AF_INET\<close> (\<open>AF_INET6\<close> for the IPv6
  overload); the port, the address and every other field are as they were. When the text
  parses it returns true with family, address and port set.
\<close>

theorem set_sockaddr_failure_frame:
  "(pton ip_str = None \<longrightarrow>
      set_sockaddr pton sa ip_str port = (False, sa\<lparr>sin_family := AF_INET\<rparr>))
   \<and> (pton ip_str = Some a \<longrightarrow>
      set_sockaddr pton sa ip_str port =
        (True, \<lparr>sin_family = AF_INET, sin_port = htons (word_of_int port), sin_addr = a\<rparr>))
   \<and> (pton6 ip_str = None \<longrightarrow>
      set_sockaddr6 pton6 sb ip_str port = (False, sb\<lparr>sin6_family := AF_INET6\<rparr>))
   \<and> (pton6 ip_str = Some b \<longrightarrow>
      set_sockaddr6 pton6 sb ip_str port =
        (True, sb\<lparr>sin6_family := AF_INET6, sin6_addr := b,
                     sin6_port := htons (word_of_int port)\<rparr>))"
  by (simp add: set_sockaddr_def set_sockaddr6_def)

theorem set_sockaddr_failure_frame_witness:
  "set_sockaddr pton_ex sockaddr_in_zero ''localhost'' 80
     = (False, sockaddr_in_zero\<lparr>sin_family := AF_INET\<rparr>)
   \<and> set_sockaddr6 pton6_ex sockaddr_in6_zero ''localhost'' 80
     = (False, sockaddr_in6_zero\<lparr>sin6_family := AF_INET6\<rparr>)"
  using set_sockaddr_failure_frame
    [of pton_ex "''localhost''" sockaddr_in_zero 80 0 pton6_ex sockaddr_in6_zero 0]
  by (simp add: pton_ex_def pton6_ex_def)

text \<open>
  A text that does not parse: the call fails, and the zeroed structure passed in comes
  back with its family field changed.
\<close>

theorem set_sockaddr_counterexample:
  "fst (set_sockaddr pton_ex sockaddr_in_zero ''localhost'' 80) = False
   \<and> snd (set_sockaddr pton_ex sockaddr_in_zero ''localhost'' 80) \<noteq> sockaddr_in_zero"
  by (simp add: set_sockaddr_def pton_ex_def sockaddr_in_zero_def AF_INET_def)

text \<open>
  C3: the overload of \<open>bind_addr\<close> that takes a text and a port is to return an error when
  the bind on the resolved address fails. The source calls the inner \<open>bind_addr\<close> and
  drops its result: with a \<open>bind\<close> that fails on descriptor 3, the inner call returns
  false and the outer call returns true.
\<close>

theorem bind_addr_ignores_bind_failure:
  "bind_addr_in (\<lambda>fd a. -1) 3
      (snd (set_sockaddr pton_ex sockaddr_in_zero ''127.0.0.1'' 8080)) = False
   \<and> fst (bind_addr pton_ex (\<lambda>fd a. -1) 3 ''127.0.0.1'' 8080 (Some sockaddr_in_zero)) = True"
  by (simp add: bind_addr_def bind_addr_in_def set_sockaddr_def pton_ex_def)

text \<open>
  C5, as the source has it: when \<open>socket\<close> has returned a descriptor for an SCTP socket,
  three of the configuration steps end \<open>open_socket\<close> with -1: reading the RTO
  information, setting it, and setting the INITMSG parameters. The result does not
  depend on what the subscription to the notifications and the reading of the INITMSG
  parameters return.
\<close>

theorem open_socket_sctp_fatal_steps:
  "socket_ret env \<noteq> -1 \<longrightarrow>
     fst (open_socket env SCTP) =
       (if get_rtoinfo_ret env < 0 \<or> set_rtoinfo_ret env < 0 \<or> set_initmsg_ret env < 0
        then -1 else socket_ret env)
     \<and> fst (open_socket (env\<lparr>set_events_ret := e, get_initmsg_ret := g\<rparr>) SCTP)
         = fst (open_socket env SCTP)"
  by (simp add: open_socket_def Let_def)

theorem open_socket_sctp_fatal_steps_witness:
  "fst (open_socket
      (env_ex\<lparr>get_rtoinfo_ret := 0, set_events_ret := -1, get_initmsg_ret := -1\<rparr>) SCTP) = 3
   \<and> fst (open_socket (env_ex\<lparr>get_rtoinfo_ret := 0\<rparr>) SCTP) = 3"
  using open_socket_sctp_fatal_steps
    [of "env_ex\<lparr>get_rtoinfo_ret := 0, set_events_ret := -1, get_initmsg_ret := -1\<rparr>" 0 0]
  by (simp add: env_ex_def)

text \<open>
  Every call succeeds except the reading of the RTO information: no descriptor is
  returned.
\<close>

theorem open_socket_counterexample:
  "socket_ret env_ex = 3 \<and> set_rtoinfo_ret env_ex = 0 \<and> set_initmsg_ret env_ex = 0
   \<and> fst (open_socket env_ex SCTP) = -1"
  by (simp add: open_socket_def env_ex_def)

text \<open>
  While every call of \<open>send\<close> makes progress, the loop goes on with what remains.
\<close>

lemma tcp_send_loop_progress:
  "(\<forall>j<m. 0 <s remaining_after send k r j
        \<and> \<not> send (k + j) (remaining_after send k r j) <s 1)
   \<Longrightarrow> tcp_send_loop send k r = tcp_send_loop send (k + m) (remaining_after send k r m)"
proof (induction m arbitrary: k r)
  case 0
  then show ?case by simp
next
  case (Suc m)
  from Suc.prems have first: "0 <s r" "\<not> send k r <s 1"
    by (auto dest: spec [of _ 0])
  have rest: "\<forall>j<m. 0 <s remaining_after send (Suc k) (r - send k r) j
        \<and> \<not> send (Suc k + j) (remaining_after send (Suc k) (r - send k r) j) <s 1"
  proof (intro allI impI)
    fix j assume "j < m"
    then have "Suc j < Suc m" by simp
    with Suc.prems show "0 <s remaining_after send (Suc k) (r - send k r) j
        \<and> \<not> send (Suc k + j) (remaining_after send (Suc k) (r - send k r) j) <s 1"
      by (auto dest!: spec [of _ "Suc j"])
  qed
  have "tcp_send_loop send k r = tcp_send_loop send (Suc k) (r - send k r)"
    using first by (subst tcp_send_loop.simps) (simp add: Let_def)
  also have "\<dots> = tcp_send_loop send (Suc k + m) (remaining_after send (Suc k) (r - send k r) m)"
    by (rule Suc.IH [OF rest])
  finally show ?case by simp
qed

lemma ucast_minus_one_64_32: "(ucast (-1 :: 64 word) :: 32 word) = -1"
  by (rule bit_word_eqI) (auto simp: bit_simps)

text \<open>
  C6, as the source has it: \<open>tcp_send\<close> calls \<open>send\<close> on what remains until nothing
  remains or a call returns less than 1. When the first \<open>m\<close> calls made progress and
  nothing remains after them, it returns the number of bytes sent, \<open>nbytes\<close> less what
  remains, as an \<open>int\<close>. When the first \<open>m\<close> calls made progress and the next call returns
  \<open>i < 1\<close> (an error or no progress), it returns that \<open>i\<close>, whatever was sent before.
\<close>

theorem tcp_send_result:
  assumes "\<forall>j<m. 0 <s remaining_after send 0 nbytes j
        \<and> \<not> send j (remaining_after send 0 nbytes j) <s 1"
  shows "(\<not> 0 <s remaining_after send 0 nbytes m \<longrightarrow>
            tcp_send send nbytes = ucast (nbytes - remaining_after send 0 nbytes m))
       \<and> (0 <s remaining_after send 0 nbytes m
            \<and> send m (remaining_after send 0 nbytes m) <s 1 \<longrightarrow>
            tcp_send send nbytes = ucast (send m (remaining_after send 0 nbytes m)))"
proof -
  have "tcp_send_loop send 0 nbytes
      = tcp_send_loop send (0 + m) (remaining_after send 0 nbytes m)"
    by (rule tcp_send_loop_progress) (use assms in simp)
  then have eq: "tcp_send_loop send 0 nbytes
      = tcp_send_loop send m (remaining_after send 0 nbytes m)"
    by simp
  show ?thesis
    unfolding tcp_send_def eq
    by (subst tcp_send_loop.simps, simp add: Let_def)+
qed

theorem tcp_send_result_witness:
  "tcp_send send_ex 10 = -1 \<and> tcp_send (\<lambda>k len. len) 10 = 10"
  using tcp_send_result [of 1 send_ex 10] tcp_send_result [of 1 "\<lambda>k len. len" 10]
  by (simp add: send_ex_def word_sless_alt ucast_minus_one_64_32)

text \<open>
  Ten bytes to send: the first call transmits four of them, the second fails. The
  function returns -1, not the four bytes sent.
\<close>

theorem tcp_send_counterexample:
  "send_ex 0 10 = 4 \<and> send_ex 1 6 = -1 \<and> tcp_send send_ex 10 = -1
   \<and> tcp_send send_ex 10 \<noteq> 4"
  by (simp add: tcp_send_def send_ex_def word_sless_alt ucast_minus_one_64_32)

section \<open>Properties of the socket handle\<close>

text \<open>
  C1: a move is to leave the source with the invalid descriptor -1, so that closing,
  resetting or destroying the moved-from handle closes nothing. The source stores 0 in
  the moved-from handle, in the move constructor and in the move assignment, and 0
  passes the test \<open>sockfd \<ge> 0\<close> of \<open>close\<close>: after a move from a handle that owns descriptor
  5, the moved-from handle holds 0 and its reset closes descriptor 0.
\<close>

theorem move_leaves_descriptor_zero:
  "sockfd (fst (socket_handler_move \<lparr>sockfd = 5, addr = sockaddr_in_zero\<rparr>)) = 5
   \<and> sockfd (snd (socket_handler_move \<lparr>sockfd = 5, addr = sockaddr_in_zero\<rparr>)) = 0
   \<and> snd (socket_handler_reset
        (snd (socket_handler_move \<lparr>sockfd = 5, addr = sockaddr_in_zero\<rparr>), [])) = [0]
   \<and> sockfd (socket_handler_move_assign
        (\<lambda>p. \<lparr>sockfd = (if p = 1 then 5 else -1), addr = sockaddr_in_zero\<rparr>) 0 1 1) = 0"
  by (simp add: socket_handler_move_def socket_handler_reset_def socket_handler_close_def
      socket_handler_move_assign_def Let_def)

section \<open>Properties of the receive tasks\<close>

text \<open>
  C9, as the source has it: when the buffer is allocated and \<open>recvfrom\<close> returns \<open>N\<close> (a
  datagram of \<open>N\<close> bytes that fits the buffer), the task calls the handler exactly once,
  with that buffer holding the received bytes and \<open>N_bytes = N\<close> and with the source
  address, and returns true. When \<open>recvfrom\<close> returns -1 with \<open>EAGAIN\<close>, and when the buffer
  cannot be allocated, it returns true and does not call the handler.
\<close>

theorem recvfrom_pdu_task_delivery:
  "(make_byte_buffer = Some pdu \<and> r = recvfrom fd (get_tailroom pdu)
      \<and> n_recv r = int N \<and> N < 2 ^ 32 \<longrightarrow>
      recvfrom_pdu_task make_byte_buffer get_tailroom recvfrom fd
        = (True,
           [(pdu\<lparr>msg := recv_bytes r @ drop (length (recv_bytes r)) (msg pdu),
                 N_bytes := of_nat N\<rparr>, recv_from r)],
           [])
      \<and> unat (of_nat N :: 32 word) = N)
   \<and> (make_byte_buffer = Some pdu \<and> r = recvfrom fd (get_tailroom pdu)
      \<and> n_recv r = -1 \<and> recv_errno r = EAGAIN \<longrightarrow>
      fst (recvfrom_pdu_task make_byte_buffer get_tailroom recvfrom fd) = True
      \<and> fst (snd (recvfrom_pdu_task make_byte_buffer get_tailroom recvfrom fd)) = [])
   \<and> (make_byte_buffer = None \<longrightarrow>
      fst (recvfrom_pdu_task make_byte_buffer get_tailroom recvfrom fd) = True
      \<and> fst (snd (recvfrom_pdu_task make_byte_buffer get_tailroom recvfrom fd)) = [])"
  by (auto simp: recvfrom_pdu_task_def Let_def unat_of_nat take_bit_nat_eq_self)

theorem recvfrom_pdu_task_delivery_witness:
  "recvfrom_pdu_task (Some pdu_ex) tailroom_ex recv_ex 4
     = (True,
        [(\<lparr>msg = [1, 2, 3, 0, 0, 0, 0, 0], N_bytes = 3\<rparr>,
          \<lparr>sin_family = AF_INET, sin_port = htons 2152, sin_addr = 0x0100007F\<rparr>)],
        [])
   \<and> fst (recvfrom_pdu_task (Some pdu_ex) tailroom_ex recv_block_ex 4) = True
   \<and> fst (snd (recvfrom_pdu_task (Some pdu_ex) tailroom_ex recv_block_ex 4)) = []"
  using recvfrom_pdu_task_delivery
      [of "Some pdu_ex" pdu_ex "recv_ex 4 (tailroom_ex pdu_ex)" recv_ex 4 tailroom_ex 3]
    recvfrom_pdu_task_delivery
      [of "Some pdu_ex" pdu_ex "recv_block_ex 4 (tailroom_ex pdu_ex)" recv_block_ex 4 tailroom_ex 0]
  by (simp add: pdu_ex_def recv_ex_def recv_block_ex_def)

text \<open>
  A datagram of three bytes is pending and the buffer pool is exhausted: the handler is
  not called.
\<close>

theorem recvfrom_pdu_task_counterexample:
  "n_recv (recv_ex 4 8) = 3
   \<and> recvfrom_pdu_task None tailroom_ex recv_ex 4 = (True, [], [Unable_to_allocate_byte_buffer])"
  by (simp add: recvfrom_pdu_task_def recv_ex_def)

section \<open>Properties of the multiplexed receive handler\<close>

lemmas rx_defs = rx_start_def always_valid_def run_thread_init_def add_socket_handler_def
  remove_socket_def write_ctrl_def log_rx_def sizeof_ctrl_cmd_t_def run_iteration_def
  handle_ctrl_def process_ctrl_msg_def remove_socket_unprotected_def map_erase_def Let_def
  FD_SET_def FD_CLR_def FD_ISSET_def FD_SETSIZE_def nrd_of_def buffer_after_def
  bytes_of_ctrl_def ctrl_of_bytes_def le_bytes_def cmd_code_def cmd_of_code_def
  ctrl_cmd_init_def

lemma rx_start_is_initial: "run_thread_init rx_idle = Inr rx_start"
  by (simp add: rx_defs rx_idle_def)

subsection \<open>The record in memory\<close>


lemma drop_le_bytes: "drop 4 (le_bytes w @ bs) = bs"
  by (simp add: le_bytes_def)







subsection \<open>The map stays ordered\<close>

lemma keys_map_insert: "fst ` set (map_insert (k, v) xs) = insert k (fst ` set xs)"
proof (induction xs)
  case Nil
  show ?case by simp
next
  case (Cons p xs)
  obtain k' v' where p: "p = (k', v')" by (cases p)
  consider "k < k'" | "k = k'" | "k' < k" by linarith
  then show ?case
  proof cases
    case 1
    then show ?thesis using p by simp
  next
    case 2
    then show ?thesis using p by simp
  next
    case 3
    then show ?thesis using p Cons.IH by (simp add: insert_commute)
  qed
qed

lemma sorted_map_insert:
  "sorted_wrt (<) (map fst xs) \<Longrightarrow> sorted_wrt (<) (map fst (map_insert (k, v) xs))"
proof (induction xs)
  case Nil
  then show ?case by simp
next
  case (Cons p xs)
  obtain k' v' where p: "p = (k', v')" by (cases p)
  have smaller: "\<forall>x\<in>set (map_insert (k, v) xs). k' < fst x" if "k' < k"
  proof
    fix x assume "x \<in> set (map_insert (k, v) xs)"
    then have "fst x \<in> insert k (fst ` set xs)"
      using keys_map_insert [of k v xs] by blast
    with that Cons.prems p show "k' < fst x" by auto
  qed
  show ?case using Cons p smaller by auto
qed

lemma sorted_map_erase:
  fixes xs :: "(int \<times> 't) list"
  shows "sorted_wrt (<) (map fst xs) \<Longrightarrow> sorted_wrt (<) (map fst (map_erase k xs))"
  by (induction xs) (auto simp: map_erase_def)



lemma keys_ordered_log [simp]: "keys_ordered (log_rx m s) = keys_ordered s"
  by (simp add: keys_ordered_def log_rx_def)

lemma set_map_insert: "set (map_insert (k, v) xs) \<subseteq> insert (k, v) (set xs)"
  by (induction xs) (auto split: if_splits)

lemma set_map_erase: "set (map_erase k xs) \<subseteq> set xs"
  by (auto simp: map_erase_def)

lemma keys_ordered_add:
  "keys_ordered s \<Longrightarrow> keys_ordered (snd (add_socket_handler fd handler write_ret s))"
  using set_map_insert [of fd handler "active_sockets s"]
  by (auto simp: add_socket_handler_def keys_ordered_def log_rx_def write_ctrl_def Let_def
      sorted_map_insert)

lemma keys_ordered_remove_socket:
  "keys_ordered s \<Longrightarrow> keys_ordered (snd (remove_socket fd write_ret s))"
  by (auto simp: remove_socket_def keys_ordered_def log_rx_def write_ctrl_def Let_def)

lemma keys_ordered_unprotected:
  "keys_ordered s \<Longrightarrow> remove_socket_unprotected fd s = Inr s' \<Longrightarrow> keys_ordered s'"
  using set_map_erase [of fd "active_sockets s"]
  by (auto simp: remove_socket_unprotected_def keys_ordered_def log_rx_def Let_def
      sorted_map_erase split: if_splits option.splits sum.splits)

lemma keys_ordered_dispatch:
  "keys_ordered s \<Longrightarrow> dispatch invoke rs xs s = Inr s' \<Longrightarrow> keys_ordered s'"
proof (induction xs arbitrary: s)
  case Nil
  then show ?case by simp
next
  case (Cons p xs)
  obtain fd cb where p: "p = (fd, cb)" by (cases p)
  from Cons.prems(2) p obtain ready where ready: "FD_ISSET fd rs = Inr ready"
    by (auto split: sum.splits)
  show ?case
  proof (cases "ready \<and> \<not> invoke cb fd")
    case False
    with Cons p ready show ?thesis by (auto split: if_splits)
  next
    case True
    with Cons.prems(2) p ready obtain s1 where
      s1: "remove_socket_unprotected fd (log_rx (Info_closed_by_peer fd) s) = Inr s1"
      and rest: "(if fd < 0 then Inr s1 else dispatch invoke rs xs s1) = Inr s'"
      by (auto split: sum.splits)
    have "keys_ordered s1"
      using keys_ordered_unprotected [OF _ s1] Cons.prems(1) by simp
    with rest Cons.IH show ?thesis by (auto split: if_splits)
  qed
qed

lemma keys_ordered_process:
  "keys_ordered s \<Longrightarrow> process_ctrl_msg m s = Inr s' \<Longrightarrow> keys_ordered s'"
proof (cases "cmd m")
  case RM_FD
  assume "keys_ordered s" "process_ctrl_msg m s = Inr s'"
  with RM_FD show "keys_ordered s'"
    by (auto simp: process_ctrl_msg_def dest: keys_ordered_unprotected split: if_splits sum.splits)
qed (auto simp: process_ctrl_msg_def keys_ordered_def log_rx_def split: if_splits sum.splits)

lemma keys_ordered_handle_ctrl:
  "keys_ordered s \<Longrightarrow> handle_ctrl msg0 rd s = Inr s' \<Longrightarrow> keys_ordered s'"
  by (auto simp: handle_ctrl_def Let_def dest: keys_ordered_process split: if_splits)

lemma keys_ordered_iteration:
  "keys_ordered s \<Longrightarrow> run_iteration invoke n rs msg0 rd s = Inr s' \<Longrightarrow> keys_ordered s'"
  by (auto simp: run_iteration_def dest: keys_ordered_dispatch keys_ordered_handle_ctrl
      split: if_splits sum.splits)

lemma keys_ordered_pipe [simp]: "keys_ordered (s\<lparr>pipe := q\<rparr>) = keys_ordered s"
  by (simp add: keys_ordered_def)

lemma keys_ordered_step:
  "keys_ordered s \<Longrightarrow> system_step invoke a s = Inr s' \<Longrightarrow> keys_ordered s'"
proof (cases a)
  case (Register fd h w)
  then show "keys_ordered s \<Longrightarrow> system_step invoke a s = Inr s' \<Longrightarrow> keys_ordered s'"
    using keys_ordered_add [of s fd h w] by auto
next
  case (Unregister fd w)
  then show "keys_ordered s \<Longrightarrow> system_step invoke a s = Inr s' \<Longrightarrow> keys_ordered s'"
    using keys_ordered_remove_socket [of s fd w] by auto
next
  case (Loop_pass n rs)
  then show "keys_ordered s \<Longrightarrow> system_step invoke a s = Inr s' \<Longrightarrow> keys_ordered s'"
    by (auto simp: Let_def split: if_splits sum.splits dest: keys_ordered_iteration [rotated])
qed

lemma keys_ordered_run:
  "keys_ordered s \<Longrightarrow> system_run invoke as s = Inr s' \<Longrightarrow> keys_ordered s'"
  by (induction as arbitrary: s) (auto split: sum.splits dest: keys_ordered_step)

subsection \<open>Registration\<close>

text \<open>
  C8: for every state of the handler, \<open>add_socket_handler\<close> on a negative descriptor fails
  with the error of the invalid descriptor and leaves the active sockets as they were;
  on a descriptor that is a key of the active sockets it fails with the error of the
  duplicate and leaves the active sockets as they were; \<open>remove_socket\<close> on a descriptor
  that is no key of the active sockets fails with the error of the missing descriptor.
  The source reports each failure as \<open>false\<close> and names the error in the message it
  logs: the call returns \<open>false\<close>, appends the message of its branch to the log and
  changes nothing else. A negative value is answered by the first branch, and no key of
  a reachable state is negative.
\<close>

theorem registration_errors:
  "(fd < 0 \<longrightarrow>
      add_socket_handler fd handler write_ret s = (False, log_rx Err_socket_must_be_open s))
   \<and> (0 \<le> fd \<and> fd \<in> fst ` set (active_sockets s) \<longrightarrow>
      add_socket_handler fd handler write_ret s = (False, log_rx (Err_fd_already_exists fd) s))
   \<and> (fd \<notin> fst ` set (active_sockets s) \<longrightarrow>
      remove_socket fd write_ret s = (False, log_rx (Err_fd_to_remove_does_not_exist fd) s))
   \<and> active_sockets (log_rx e s) = active_sockets s
   \<and> total_fd_set (log_rx e s) = total_fd_set s
   \<and> pipe (log_rx e s) = pipe s"
  by (auto simp: add_socket_handler_def remove_socket_def log_rx_def map_of_eq_None_iff
      dest: weak_map_of_SomeI)

theorem registration_errors_witness:
  "add_socket_handler (-1) () 8 rx_two = (False, log_rx Err_socket_must_be_open rx_two)
   \<and> add_socket_handler 9 () 8 rx_two = (False, log_rx (Err_fd_already_exists 9) rx_two)
   \<and> remove_socket 5 8 rx_two = (False, log_rx (Err_fd_to_remove_does_not_exist 5) rx_two)
   \<and> active_sockets (log_rx Err_socket_must_be_open rx_two) = [(4, ()), (9, ())]"
  using registration_errors [of "-1" "()" 8 rx_two Err_socket_must_be_open]
    registration_errors [of 9 "()" 8 rx_two] registration_errors [of 5 "()" 8 rx_two]
  by (simp add: rx_two_def)

subsection \<open>Removal and the control pipe\<close>

text \<open>
  C2: processing \<open>RM_FD\<close> is to complete without error also when the descriptor is no
  longer in the active sockets. The source erases the result of \<open>find\<close> unchecked: for a
  descriptor that is not in the map this is the erasure of \<open>end()\<close>. It is reached through
  the interface: descriptor 5 is registered and unregistered twice before the loop reads
  the pipe; the loop reads \<open>NEW_FD\<close>, then the first \<open>RM_FD\<close>, which removes the entry, then
  the second \<open>RM_FD\<close>.
\<close>

theorem remove_absent_descriptor_erases_end:
  "remove_socket_unprotected 5 rx_start = Inl Erase_of_end_iterator
   \<and> system_run always_valid
        [Register 5 () 8, Unregister 5 8, Unregister 5 8,
         Loop_pass 1 {3}, Loop_pass 1 {3}, Loop_pass 1 {3}] rx_start
       = Inl Erase_of_end_iterator"
  by (simp add: rx_defs)




subsection \<open>The bound of the wait set\<close>




end
